theory Spec2Isabelle
  imports Complex_Main
begin

section \<open>The virtual carrier command group of the SENTIO prober client\<close>

text \<open>
  The development embeds \<^verbatim>\<open>LoaderVirtualCarrierCommandGroup.py\<close>. Every method of the
  class composes calls on three collaborators that live in other files of the package:
  the Transport (\<^verbatim>\<open>self.comm.send\<close>, \<^verbatim>\<open>self.comm.read_line\<close>), the response validation
  (\<^verbatim>\<open>Response.check_resp\<close>) and the Session Controller (\<^verbatim>\<open>self.prober.wait_complete\<close>).
  Exceptions are values of the type \<open>error\<close>; a method returns a result or an error
  together with the world it leaves behind.
\<close>

subsection \<open>Errors, calls and the world\<close>

datatype error =
    CollaboratorError nat   \<comment> \<open>raised inside a collaborator; the number tells causes apart\<close>
  | IndexError              \<comment> \<open>\<^verbatim>\<open>col[i]\<close> with \<^verbatim>\<open>i\<close> out of range\<close>
  | KeyError string         \<comment> \<open>\<^verbatim>\<open>Enum[name]\<close> with \<^verbatim>\<open>name\<close> not a member\<close>
  | ValueError string       \<comment> \<open>\<^verbatim>\<open>int(s)\<close> or \<^verbatim>\<open>float(s)\<close> on a token that is no number\<close>

text \<open>
  One entry of the call log per call this module makes on a collaborator, with the
  arguments as the call site passes them. \<^verbatim>\<open>wait_complete\<close> of the Session Controller
  takes the correlation id and, optionally, a timeout.
\<close>

datatype call =
    Send string
  | ReadLine
  | WaitComplete int "int option"

text \<open>
  A validated reply: the accessors the module uses are \<^verbatim>\<open>cmd_id()\<close> and \<^verbatim>\<open>message()\<close>.
\<close>

record response =
  cmd_id :: int
  message :: string

text \<open>
  The world holds the call log (oldest call first) and, for each collaborator, the
  outcomes of its future calls. In \<open>send_script\<close>, \<open>None\<close> is a call that returns and
  \<open>Some e\<close> one that raises \<open>e\<close>; \<open>read_script\<close> holds the lines to come, or the error
  \<^verbatim>\<open>read_line\<close> raises; \<open>wait_script\<close> holds the completion replies to come, or the
  error \<^verbatim>\<open>wait_complete\<close> raises. A \<^verbatim>\<open>send\<close> beyond its script returns, a
  \<^verbatim>\<open>wait_complete\<close> beyond its script returns a reply with an empty message, and a
  \<^verbatim>\<open>read_line\<close> beyond its script raises (no line arrives).
\<close>

record world =
  calls :: "call list"
  send_script :: "error option list"
  read_script :: "(error + string) list"
  wait_script :: "(error + response) list"

type_synonym 'a io = "world \<Rightarrow> (error + 'a) \<times> world"

definition return_io :: "'a \<Rightarrow> 'a io" where
  "return_io x w = (Inr x, w)"

definition lift_io :: "error + 'a \<Rightarrow> 'a io" where
  "lift_io r w = (r, w)"

definition bind_io :: "'a io \<Rightarrow> ('a \<Rightarrow> 'b io) \<Rightarrow> 'b io" where
  "bind_io m f w = (case m w of (Inl e, w') \<Rightarrow> (Inl e, w') | (Inr x, w') \<Rightarrow> f x w')"

definition comm_send :: "string \<Rightarrow> unit io" where
  "comm_send cmd w =
     (let w' = w\<lparr>calls := calls w @ [Send cmd]\<rparr> in
      case send_script w of
        [] \<Rightarrow> (Inr (), w')
      | None # rest \<Rightarrow> (Inr (), w'\<lparr>send_script := rest\<rparr>)
      | Some e # rest \<Rightarrow> (Inl e, w'\<lparr>send_script := rest\<rparr>))"

definition comm_read_line :: "string io" where
  "comm_read_line w =
     (let w' = w\<lparr>calls := calls w @ [ReadLine]\<rparr> in
      case read_script w of
        [] \<Rightarrow> (Inl (CollaboratorError 0), w')
      | r # rest \<Rightarrow> (r, w'\<lparr>read_script := rest\<rparr>))"

text \<open>
  Modelled from the spec: \<^verbatim>\<open>wait_complete\<close> of the Session Controller is not part of the
  sources at hand. The specification has it block on a correlation id until the
  asynchronous command is done, and has the final payload of the command arrive after
  completion; the model returns the completion reply, which carries that payload.
\<close>

definition prober_wait_complete :: "int \<Rightarrow> int option \<Rightarrow> response io" where
  "prober_wait_complete cid tmo w =
     (let w' = w\<lparr>calls := calls w @ [WaitComplete cid tmo]\<rparr> in
      case wait_script w of
        [] \<Rightarrow> (Inr \<lparr>cmd_id = cid, message = ''''\<rparr>, w')
      | r # rest \<Rightarrow> (r, w'\<lparr>wait_script := rest\<rparr>))"

subsection \<open>The parts of the package outside this file\<close>

text \<open>
  \<^verbatim>\<open>Response.check_resp\<close>, the two enumerations looked up by name, the abbreviation of
  an initialisation mode and Python's \<^verbatim>\<open>float\<close> are taken as parameters: the module is
  verified for every choice of them. A lookup by name gives \<open>None\<close> where Python
  raises \<^verbatim>\<open>KeyError\<close>, \<open>float_of\<close> gives \<open>None\<close> where \<^verbatim>\<open>float\<close> raises \<^verbatim>\<open>ValueError\<close>.
\<close>

record ('st, 'ls, 'f, 'm) externals =
  check_resp :: "string \<Rightarrow> error + response"
  state_by_name :: "string \<Rightarrow> 'st option"
  station_by_name :: "string \<Rightarrow> 'ls option"
  float_of :: "string \<Rightarrow> 'f option"
  toSentioAbbr :: "'m \<Rightarrow> string"

subsection \<open>Python's string operations\<close>

text \<open>
  \<^verbatim>\<open>s.split(sep)\<close> with a one-character separator: the pieces between the separators,
  empty pieces included. \<open>acc\<close> is the piece being read, reversed.
\<close>

fun split_acc :: "char \<Rightarrow> string \<Rightarrow> string \<Rightarrow> string list" where
  "split_acc sep acc [] = [rev acc]"
| "split_acc sep acc (c # cs) =
     (if c = sep then rev acc # split_acc sep [] cs else split_acc sep (c # acc) cs)"

definition split_on :: "char \<Rightarrow> string \<Rightarrow> string list" where
  "split_on sep s = split_acc sep [] s"

text \<open>
  \<^verbatim>\<open>str(n)\<close> of an integer, as an f-string renders \<^verbatim>\<open>{resp.cmd_id()}\<close> and
  \<^verbatim>\<open>{timeout}\<close>: the decimal digits, with a minus sign for a negative number.
\<close>

fun str_nat :: "nat \<Rightarrow> string" where
  "str_nat n =
     (if n < 10 then [''0123456789'' ! n]
      else str_nat (n div 10) @ [''0123456789'' ! (n mod 10)])"

declare str_nat.simps [simp del]

definition str_int :: "int \<Rightarrow> string" where
  "str_int i = (if i < 0 then CHR ''-'' # str_nat (nat (- i)) else str_nat (nat i))"

text \<open>\<^verbatim>\<open>str(b)\<close> of a boolean, as an f-string renders \<^verbatim>\<open>{cleanup}\<close>.\<close>

definition str_bool :: "bool \<Rightarrow> string" where
  "str_bool b = (if b then ''True'' else ''False'')"

text \<open>
  \<^verbatim>\<open>int(s)\<close> on a string, base ten: white space is stripped at both ends, one sign may
  lead, and the rest is a non-empty run of digits in which single underscores may stand
  between two digits. The characters are those of code points below 256; the white
  space that \<^verbatim>\<open>int\<close> strips among them is 9 to 13, 32, 133 and 160 (the separators 28
  to 31 are not stripped: \<^verbatim>\<open>int\<close> raises on them), the digits are \<^verbatim>\<open>0\<close> to \<^verbatim>\<open>9\<close>.
\<close>

definition py_isspace :: "char \<Rightarrow> bool" where
  "py_isspace c =
     (let n = (of_char c :: nat) in (9 \<le> n \<and> n \<le> 13) \<or> n = 32 \<or> n = 133 \<or> n = 160)"

definition py_isdigit :: "char \<Rightarrow> bool" where
  "py_isdigit c = (let n = (of_char c :: nat) in 48 \<le> n \<and> n \<le> 57)"

definition digit_val :: "char \<Rightarrow> nat" where
  "digit_val c = (of_char c :: nat) - 48"

definition py_strip :: "string \<Rightarrow> string" where
  "py_strip s = rev (dropWhile py_isspace (rev (dropWhile py_isspace s)))"

text \<open>\<open>digits_after acc cs\<close> reads what follows a digit; \<open>acc\<close> is the value read so far.\<close>

fun digits_after :: "nat \<Rightarrow> string \<Rightarrow> nat option" where
  "digits_after acc [] = Some acc"
| "digits_after acc [c] = (if py_isdigit c then Some (10 * acc + digit_val c) else None)"
| "digits_after acc (c # d # cs) =
     (if py_isdigit c then digits_after (10 * acc + digit_val c) (d # cs)
      else if c = CHR ''_'' \<and> py_isdigit d then digits_after (10 * acc + digit_val d) cs
      else None)"

definition py_digits :: "string \<Rightarrow> nat option" where
  "py_digits s =
     (case s of [] \<Rightarrow> None
      | c # cs \<Rightarrow> if py_isdigit c then digits_after (digit_val c) cs else None)"

definition py_int :: "string \<Rightarrow> error + int" where
  "py_int s =
     (let t = py_strip s;
          r = (case t of
                 [] \<Rightarrow> None
               | c # cs \<Rightarrow>
                   if c = CHR ''-'' then map_option (\<lambda>n. - int n) (py_digits cs)
                   else if c = CHR ''+'' then map_option int (py_digits cs)
                   else map_option int (py_digits t))
      in case r of None \<Rightarrow> Inl (ValueError s) | Some i \<Rightarrow> Inr i)"

text \<open>\<^verbatim>\<open>float(s)\<close>, through the parameter; \<^verbatim>\<open>Enum[name]\<close>, through the lookups.\<close>

definition py_float :: "('st, 'ls, 'f, 'm) externals \<Rightarrow> string \<Rightarrow> error + 'f" where
  "py_float ext s = (case float_of ext s of None \<Rightarrow> Inl (ValueError s) | Some x \<Rightarrow> Inr x)"

definition state_member :: "('st, 'ls, 'f, 'm) externals \<Rightarrow> string \<Rightarrow> error + 'st" where
  "state_member ext name =
     (case state_by_name ext name of None \<Rightarrow> Inl (KeyError name) | Some x \<Rightarrow> Inr x)"

definition station_member :: "('st, 'ls, 'f, 'm) externals \<Rightarrow> string \<Rightarrow> error + 'ls" where
  "station_member ext name =
     (case station_by_name ext name of None \<Rightarrow> Inl (KeyError name) | Some x \<Rightarrow> Inr x)"

text \<open>\<^verbatim>\<open>col[i]\<close> for the constant indices 0 to 5 of the source.\<close>

definition item :: "'a list \<Rightarrow> nat \<Rightarrow> error + 'a" where
  "item xs i = (if i < length xs then Inr (xs ! i) else Inl IndexError)"

definition bind_err :: "error + 'a \<Rightarrow> ('a \<Rightarrow> error + 'b) \<Rightarrow> error + 'b" where
  "bind_err r f = (case r of Inl e \<Rightarrow> Inl e | Inr x \<Rightarrow> f x)"

subsection \<open>Decoding a processing step\<close>

type_synonym ('st, 'ls, 'f) step = "'st \<times> string \<times> 'ls \<times> int \<times> 'f \<times> int"

text \<open>
  The six assignments that \<^verbatim>\<open>initialize\<close> and \<^verbatim>\<open>next_step\<close> share, in the order the
  source evaluates them: each reads its column and then converts it.
\<close>

definition decode_cols ::
  "('st, 'ls, 'f, 'm) externals \<Rightarrow> string list \<Rightarrow> error + ('st, 'ls, 'f) step" where
  "decode_cols ext col =
     bind_err (bind_err (item col 0) (state_member ext)) (\<lambda>state.
     bind_err (item col 1) (\<lambda>ident.
     bind_err (bind_err (item col 2) (station_member ext)) (\<lambda>station.
     bind_err (bind_err (item col 3) py_int) (\<lambda>slot.
     bind_err (bind_err (item col 4) (py_float ext)) (\<lambda>temp.
     bind_err (bind_err (item col 5) py_int) (\<lambda>probecard_idx.
     Inr (state, ident, station, slot, temp, probecard_idx)))))))"

text \<open>
  The loop of \<^verbatim>\<open>initialize\<close> over \<^verbatim>\<open>steps_as_str\<close>: \<open>steps\<close> is the list built so
  far, each record is split on one space, and the first error ends the loop.
\<close>

fun decode_loop ::
  "('st, 'ls, 'f, 'm) externals \<Rightarrow> ('st, 'ls, 'f) step list \<Rightarrow> string list
     \<Rightarrow> error + ('st, 'ls, 'f) step list" where
  "decode_loop ext steps [] = Inr steps"
| "decode_loop ext steps (it # rest) =
     (case decode_cols ext (split_on CHR '' '' it) of
        Inl e \<Rightarrow> Inl e
      | Inr step \<Rightarrow> decode_loop ext (steps @ [step]) rest)"

subsection \<open>The operations\<close>

definition list_body :: "('st, 'ls, 'f, 'm) externals \<Rightarrow> string list io" where
  "list_body ext =
     bind_io (comm_send ''loader:vc:list'') (\<lambda>_.
     bind_io comm_read_line (\<lambda>line.
     bind_io (lift_io (check_resp ext line)) (\<lambda>resp.
     return_io (split_on CHR '','' (message resp)))))"

text \<open>The bare \<^verbatim>\<open>except:\<close> of \<^verbatim>\<open>list\<close> turns every error of the body into \<^verbatim>\<open>[]\<close>.\<close>

definition list_vc :: "('st, 'ls, 'f, 'm) externals \<Rightarrow> world \<Rightarrow> string list \<times> world" where
  "list_vc ext w = (case list_body ext w of (Inl e, w') \<Rightarrow> ([], w') | (Inr xs, w') \<Rightarrow> (xs, w'))"

definition select :: "('st, 'ls, 'f, 'm) externals \<Rightarrow> string \<Rightarrow> response io" where
  "select ext vc_name =
     bind_io (comm_send (''loader:vc:select '' @ vc_name)) (\<lambda>_.
     bind_io comm_read_line (\<lambda>line.
     lift_io (check_resp ext line)))"

definition start_load_first :: "('st, 'ls, 'f, 'm) externals \<Rightarrow> bool \<Rightarrow> response io" where
  "start_load_first ext cleanup =
     bind_io (comm_send (''loader:vc:start_load_first '' @ str_bool cleanup)) (\<lambda>_.
     bind_io comm_read_line (\<lambda>line.
     lift_io (check_resp ext line)))"

text \<open>
  \<^verbatim>\<open>initialize\<close> takes \<^verbatim>\<open>timeout\<close> and calls \<^verbatim>\<open>self.prober.wait_complete(resp.cmd_id())\<close>
  with the correlation id alone and drops what the call returns; the steps are decoded
  from the message of \<^verbatim>\<open>resp\<close>, the reply to the start command.
\<close>

definition initialize ::
  "('st, 'ls, 'f, 'm) externals \<Rightarrow> string \<Rightarrow> 'm \<Rightarrow> int \<Rightarrow> ('st, 'ls, 'f) step list io" where
  "initialize ext carrier_name mode timeout =
     bind_io (comm_send (''loader:vc:start_initialize '' @ carrier_name @ '', ''
                          @ toSentioAbbr ext mode)) (\<lambda>_.
     bind_io comm_read_line (\<lambda>line.
     bind_io (lift_io (check_resp ext line)) (\<lambda>resp.
     bind_io (prober_wait_complete (cmd_id resp) None) (\<lambda>_.
     lift_io (decode_loop ext [] (split_on CHR '','' (message resp)))))))"

text \<open>
  \<^verbatim>\<open>next_step\<close> sends its own \<^verbatim>\<open>wait_complete\<close> line, validates the reply to it and
  drops that reply; the columns are the message of the first reply split on commas.
\<close>

definition next_step :: "('st, 'ls, 'f, 'm) externals \<Rightarrow> int \<Rightarrow> ('st, 'ls, 'f) step io" where
  "next_step ext timeout =
     bind_io (comm_send ''loader:vc:start_next_step'') (\<lambda>_.
     bind_io comm_read_line (\<lambda>line.
     bind_io (lift_io (check_resp ext line)) (\<lambda>resp.
     bind_io (comm_send (''wait_complete '' @ str_int (cmd_id resp) @ '', ''
                          @ str_int timeout)) (\<lambda>_.
     bind_io comm_read_line (\<lambda>line2.
     bind_io (lift_io (check_resp ext line2)) (\<lambda>_.
     lift_io (decode_cols ext (split_on CHR '','' (message resp)))))))))"

definition load_first :: "('st, 'ls, 'f, 'm) externals \<Rightarrow> bool \<Rightarrow> int \<Rightarrow> unit io" where
  "load_first ext cleanup timeout =
     bind_io (start_load_first ext cleanup) (\<lambda>resp.
     bind_io (comm_send (''wait_complete '' @ str_int (cmd_id resp) @ '', ''
                          @ str_int timeout)) (\<lambda>_.
     bind_io comm_read_line (\<lambda>line.
     bind_io (lift_io (check_resp ext line)) (\<lambda>_.
     return_io ()))))"

definition start_load_next :: "('st, 'ls, 'f, 'm) externals \<Rightarrow> response io" where
  "start_load_next ext =
     bind_io (comm_send ''loader:vc:start_load_next'') (\<lambda>_.
     bind_io comm_read_line (\<lambda>line.
     lift_io (check_resp ext line)))"

definition load_next :: "('st, 'ls, 'f, 'm) externals \<Rightarrow> int \<Rightarrow> unit io" where
  "load_next ext timeout =
     bind_io (start_load_next ext) (\<lambda>resp.
     bind_io (comm_send (''wait_complete '' @ str_int (cmd_id resp) @ '', ''
                          @ str_int timeout)) (\<lambda>_.
     bind_io comm_read_line (\<lambda>line.
     bind_io (lift_io (check_resp ext line)) (\<lambda>_.
     return_io ()))))"

subsection \<open>Reading the call log\<close>

text \<open>The calls an operation adds to the log: those of \<open>w'\<close> after the ones of \<open>w\<close>.\<close>

definition new_calls :: "world \<Rightarrow> world \<Rightarrow> call list" where
  "new_calls w w' = drop (length (calls w)) (calls w')"

fun is_transport :: "call \<Rightarrow> bool" where
  "is_transport (Send c) = True"
| "is_transport ReadLine = True"
| "is_transport (WaitComplete cid tmo) = False"

fun is_wait_call :: "call \<Rightarrow> bool" where
  "is_wait_call (WaitComplete cid tmo) = True"
| "is_wait_call c = False"

text \<open>The command lines sent, in order.\<close>

fun sends_of :: "call list \<Rightarrow> string list" where
  "sends_of [] = []"
| "sends_of (Send c # cs) = c # sends_of cs"
| "sends_of (x # cs) = sends_of cs"

text \<open>
  A Transport trace alternates when it is \<^verbatim>\<open>send\<close>, \<^verbatim>\<open>read_line\<close>, \<^verbatim>\<open>send\<close>,
  \<^verbatim>\<open>read_line\<close>, ... from its first call on; it may end after a \<^verbatim>\<open>send\<close> (the call
  that raised).
\<close>

fun alternates :: "call list \<Rightarrow> bool" where
  "alternates [] = True"
| "alternates [Send c] = True"
| "alternates (Send c # ReadLine # cs) = alternates cs"
| "alternates cs = False"

text \<open>Every \<^verbatim>\<open>send\<close> still to come returns.\<close>

definition sends_return :: "world \<Rightarrow> bool" where
  "sends_return w = list_all (\<lambda>x. x = None) (send_script w)"

text \<open>The next \<^verbatim>\<open>wait_complete\<close> returns.\<close>

definition waits_return :: "world \<Rightarrow> bool" where
  "waits_return w = (case wait_script w of Inl e # rest \<Rightarrow> False | _ \<Rightarrow> True)"

text \<open>The next \<^verbatim>\<open>send\<close> raises.\<close>

definition send_raises :: "world \<Rightarrow> bool" where
  "send_raises w = (case send_script w of Some e # rest \<Rightarrow> True | _ \<Rightarrow> False)"

subsection \<open>An instance of the parameters\<close>

text \<open>
  Modelled from the spec: \<^verbatim>\<open>Enumerations.py\<close> is not part of the sources at hand. The
  members are the ones the specification names in its examples of step records.
\<close>

datatype example_state = Processing | Done

datatype example_station = Station1 | Station2 | Station3

text \<open>
  Modelled from the spec: \<^verbatim>\<open>Response.py\<close> is not part of the sources at hand. The
  specification describes a reply as a status, a correlation id and a payload, and the
  check as failing on a status of remote failure. The instance reads a line
  \<^verbatim>\<open>status,id,payload\<close> and takes the status \<^verbatim>\<open>0\<close> as success.
\<close>

definition example_check_resp :: "string \<Rightarrow> error + response" where
  "example_check_resp line =
     (let status = takeWhile (\<lambda>c. c \<noteq> CHR '','') line;
          rest = drop (length status + 1) line;
          ident = takeWhile (\<lambda>c. c \<noteq> CHR '','') rest;
          payload = drop (length ident + 1) rest
      in if status \<noteq> ''0'' then Inl (CollaboratorError 1)
         else case py_int ident of
                Inl e \<Rightarrow> Inl e
              | Inr i \<Rightarrow> Inr \<lparr>cmd_id = i, message = payload\<rparr>)"

text \<open>
  The instance of \<^verbatim>\<open>float\<close> knows the three temperatures of the specification's
  examples and gives each as a rational; a mode is given by its abbreviation.
\<close>

definition example_ext :: "(example_state, example_station, rat, string) externals" where
  "example_ext =
     \<lparr>check_resp = example_check_resp,
      state_by_name = map_of [(''Processing'', Processing), (''Done'', Done)],
      station_by_name =
        map_of [(''Station1'', Station1), (''Station2'', Station2), (''Station3'', Station3)],
      float_of = map_of [(''25.5'', 51 / 2), (''26.0'', 26), (''24.0'', 24)],
      toSentioAbbr = (\<lambda>m. m)\<rparr>"

text \<open>A world with an empty log in which the given lines arrive and no call raises.\<close>

definition world_of_lines :: "string list \<Rightarrow> world" where
  "world_of_lines ls =
     \<lparr>calls = [], send_script = [], read_script = map Inr ls, wait_script = []\<rparr>"

text \<open>
  The same, with the given completion replies for the calls of \<^verbatim>\<open>wait_complete\<close>.
\<close>

definition world_of_replies :: "string list \<Rightarrow> response list \<Rightarrow> world" where
  "world_of_replies ls rs =
     \<lparr>calls = [], send_script = [], read_script = map Inr ls, wait_script = map Inr rs\<rparr>"

section \<open>Properties\<close>

subsection \<open>The primitives\<close>

lemma split_acc_nonempty: "split_acc sep acc s \<noteq> []"
  by (induction s arbitrary: acc) auto

lemma split_on_nonempty: "split_on sep s \<noteq> []"
  by (simp add: split_on_def split_acc_nonempty)

lemma comm_send_ok:
  "\<not> send_raises w \<Longrightarrow>
   comm_send cmd w =
     (Inr (), w\<lparr>calls := calls w @ [Send cmd], send_script := tl (send_script w)\<rparr>)"
  by (cases "send_script w")
     (auto simp: comm_send_def send_raises_def Let_def split: option.splits)

lemma comm_send_fails:
  "send_raises w \<Longrightarrow>
   \<exists>e. comm_send cmd w =
     (Inl e, w\<lparr>calls := calls w @ [Send cmd], send_script := tl (send_script w)\<rparr>)"
  by (cases "send_script w")
     (auto simp: comm_send_def send_raises_def Let_def split: option.splits)

lemma sends_return_not_raises: "sends_return w \<Longrightarrow> \<not> send_raises w"
  by (cases "send_script w")
     (auto simp: sends_return_def send_raises_def split: option.splits)

lemma comm_read_line_next:
  "read_script w = r # rest \<Longrightarrow>
   comm_read_line w = (r, w\<lparr>calls := calls w @ [ReadLine], read_script := rest\<rparr>)"
  by (simp add: comm_read_line_def Let_def)

lemma comm_read_line_none:
  "read_script w = [] \<Longrightarrow>
   comm_read_line w = (Inl (CollaboratorError 0), w\<lparr>calls := calls w @ [ReadLine]\<rparr>)"
  by (simp add: comm_read_line_def Let_def)

lemma prober_wait_returns:
  "waits_return w \<Longrightarrow>
   \<exists>r. prober_wait_complete cid tmo w =
     (Inr r, w\<lparr>calls := calls w @ [WaitComplete cid tmo], wait_script := tl (wait_script w)\<rparr>)"
  by (cases "wait_script w")
     (auto simp: prober_wait_complete_def waits_return_def Let_def split: sum.splits)

lemma sends_return_tl:
  "sends_return w \<Longrightarrow> sends_return (w\<lparr>send_script := tl (send_script w)\<rparr>)"
  by (cases "send_script w") (auto simp: sends_return_def)

lemma sends_return_other:
  "sends_return (w\<lparr>calls := cs\<rparr>) = sends_return w"
  "sends_return (w\<lparr>read_script := rs\<rparr>) = sends_return w"
  "sends_return (w\<lparr>wait_script := ws\<rparr>) = sends_return w"
  by (simp_all add: sends_return_def)

lemma waits_return_other:
  "waits_return (w\<lparr>calls := cs\<rparr>) = waits_return w"
  "waits_return (w\<lparr>read_script := rs\<rparr>) = waits_return w"
  "waits_return (w\<lparr>send_script := ss\<rparr>) = waits_return w"
  by (simp_all add: waits_return_def)

lemma bind_io_Inr: "m w = (Inr x, w1) \<Longrightarrow> bind_io m f w = f x w1"
  by (simp add: bind_io_def)

lemma bind_io_Inl: "m w = (Inl e, w1) \<Longrightarrow> bind_io m f w = (Inl e, w1)"
  by (simp add: bind_io_def)

subsection \<open>\<^verbatim>\<open>list\<close>\<close>

lemma list_body_ok:
  assumes "\<not> send_raises w" "read_script w = Inr line # rest" "check_resp ext line = Inr resp"
  shows "fst (list_body ext w) = Inr (split_on CHR '','' (message resp))"
  using assms
  by (simp add: list_body_def comm_send_ok comm_read_line_def bind_io_def lift_io_def
      return_io_def Let_def)

lemma list_vc_body:
  "fst (list_vc ext w) = (case fst (list_body ext w) of Inl e \<Rightarrow> [] | Inr xs \<Rightarrow> xs)"
  by (auto simp: list_vc_def split: prod.splits sum.splits)

lemma list_body_send_raises: "send_raises w \<Longrightarrow> \<exists>e. fst (list_body ext w) = Inl e"
  using comm_send_fails [of w "''loader:vc:list''"]
  by (auto simp: list_body_def bind_io_def)

lemma list_body_read_raises:
  assumes "\<not> send_raises w" "read_script w = [] \<or> read_script w = Inl e # rest"
  shows "\<exists>e'. fst (list_body ext w) = Inl e'"
  using assms
  by (auto simp: list_body_def comm_send_ok comm_read_line_def bind_io_def Let_def)

lemma list_body_check_raises:
  assumes "\<not> send_raises w" "read_script w = Inr line # rest" "check_resp ext line = Inl e"
  shows "fst (list_body ext w) = Inl e"
  using assms
  by (simp add: list_body_def comm_send_ok comm_read_line_def bind_io_def lift_io_def Let_def)

text \<open>
  Claim C10. A call of \<^verbatim>\<open>list\<close> in which the send, the read and the validation raise
  nothing returns a sequence with at least one element, and the one-element sequence
  of the empty string when the payload is empty. So when \<^verbatim>\<open>list\<close> returns the empty
  sequence, the send raised, or the read raised, or the validation raised.
\<close>

theorem list_success_nonempty:
  "(\<not> send_raises w \<and> read_script w = Inr line # rest \<and> check_resp ext line = Inr resp
      \<longrightarrow> fst (list_vc ext w) \<noteq> []
          \<and> (message resp = '''' \<longrightarrow> fst (list_vc ext w) = ['''']))
   \<and> (fst (list_vc ext w) = [] \<longrightarrow>
        send_raises w
        \<or> read_script w = [] \<or> (\<exists>e rest'. read_script w = Inl e # rest')
        \<or> (\<exists>l rest' e. read_script w = Inr l # rest' \<and> check_resp ext l = Inl e))"
proof -
  have a: "fst (list_vc ext w) \<noteq> [] \<and> (message resp = '''' \<longrightarrow> fst (list_vc ext w) = [''''])"
    if "\<not> send_raises w" "read_script w = Inr line # rest" "check_resp ext line = Inr resp"
  proof -
    have "fst (list_vc ext w) = split_on CHR '','' (message resp)"
      using list_body_ok[OF that] by (simp add: list_vc_body)
    moreover have "split_on CHR '','' [] = [[]]" by (simp add: split_on_def)
    ultimately show ?thesis by (simp add: split_on_nonempty)
  qed
  have b: "send_raises w
        \<or> read_script w = [] \<or> (\<exists>e rest'. read_script w = Inl e # rest')
        \<or> (\<exists>l rest' e. read_script w = Inr l # rest' \<and> check_resp ext l = Inl e)"
    if e: "fst (list_vc ext w) = []"
  proof (rule ccontr)
    assume n: "\<not> ?thesis"
    then obtain l rest' where r: "read_script w = Inr l # rest'"
      by (cases "read_script w"; cases "hd (read_script w)") auto
    with n obtain resp' where "check_resp ext l = Inr resp'"
      by (cases "check_resp ext l") auto
    with n r have "fst (list_body ext w) = Inr (split_on CHR '','' (message resp'))"
      by (intro list_body_ok) auto
    with e show False by (simp add: list_vc_body split_on_nonempty)
  qed
  from a b show ?thesis by blast
qed

theorem list_success_nonempty_witness:
  "fst (list_vc example_ext (world_of_lines [''0,1,''])) = ['''']
   \<and> fst (list_vc example_ext (world_of_lines [''0,1,''])) \<noteq> []
   \<and> fst (list_vc example_ext (world_of_lines [''5,1,''])) = []
   \<and> check_resp example_ext ''5,1,'' = Inl (CollaboratorError 1)"
proof -
  let ?w = "world_of_lines [''0,1,'']"
  let ?v = "world_of_lines [''5,1,'']"
  have h1: "\<not> send_raises ?w" by (simp add: send_raises_def world_of_lines_def)
  have h2: "read_script ?w = Inr ''0,1,'' # []" by (simp add: world_of_lines_def)
  have h3: "check_resp example_ext ''0,1,'' = Inr \<lparr>cmd_id = 1, message = ''''\<rparr>" by code_simp
  have h4: "fst (list_vc example_ext ?v) = []" by code_simp
  have g1: "\<not> send_raises ?v" by (simp add: send_raises_def world_of_lines_def)
  have g2: "read_script ?v = [Inr ''5,1,'']" by (simp add: world_of_lines_def)
  from list_success_nonempty [of ?w "''0,1,''" "[]" example_ext "\<lparr>cmd_id = 1, message = ''''\<rparr>"]
    h1 h2 h3
  have p: "fst (list_vc example_ext ?w) = [''''] \<and> fst (list_vc example_ext ?w) \<noteq> []"
    by simp
  from list_success_nonempty [of ?v "''5,1,''" "[]" example_ext "\<lparr>cmd_id = 1, message = ''''\<rparr>"]
    h4 g1 g2
  have q: "\<exists>e. check_resp example_ext ''5,1,'' = Inl e" by simp
  have "check_resp example_ext ''5,1,'' = Inl (CollaboratorError 1)" by code_simp
  with p q h4 show ?thesis by simp
qed

text \<open>
  Claim C3. When the send and the read raise nothing and the validation gives a reply,
  \<^verbatim>\<open>list\<close> returns the payload split on the comma, so \<^verbatim>\<open>["A", "B", "C"]\<close> for the
  payload \<^verbatim>\<open>A,B,C\<close>. When the send raises, or the read raises, or the validation
  raises, or the body raises any error at all, \<^verbatim>\<open>list\<close> returns the empty sequence.
\<close>

theorem list_splits_or_swallows:
  "(\<not> send_raises w \<and> read_script w = Inr line # rest \<and> check_resp ext line = Inr resp
      \<longrightarrow> fst (list_vc ext w) = split_on CHR '','' (message resp)
          \<and> (message resp = ''A,B,C'' \<longrightarrow> fst (list_vc ext w) = [''A'', ''B'', ''C'']))
   \<and> (send_raises w \<longrightarrow> fst (list_vc ext w) = [])
   \<and> (read_script w = [] \<or> read_script w = Inl e # rest \<longrightarrow> fst (list_vc ext w) = [])
   \<and> (read_script w = Inr line # rest \<and> check_resp ext line = Inl e
        \<longrightarrow> fst (list_vc ext w) = [])
   \<and> (fst (list_body ext w) = Inl e \<longrightarrow> fst (list_vc ext w) = [])"
proof -
  have abc: "split_on CHR '','' ''A,B,C'' = [''A'', ''B'', ''C'']"
    by (simp add: split_on_def)
  have a: "fst (list_vc ext w) = split_on CHR '','' (message resp)"
    if "\<not> send_raises w" "read_script w = Inr line # rest" "check_resp ext line = Inr resp"
    using list_body_ok [OF that] by (simp add: list_vc_body)
  have b: "fst (list_vc ext w) = []" if "send_raises w"
    using list_body_send_raises [OF that, of ext] by (auto simp: list_vc_body)
  have c: "fst (list_vc ext w) = []" if "read_script w = [] \<or> read_script w = Inl e # rest"
  proof (cases "send_raises w")
    case True then show ?thesis by (rule b)
  next
    case False
    from list_body_read_raises [OF False that, of ext] show ?thesis
      by (auto simp: list_vc_body)
  qed
  have d: "fst (list_vc ext w) = []"
    if "read_script w = Inr line # rest" "check_resp ext line = Inl e"
  proof (cases "send_raises w")
    case True then show ?thesis by (rule b)
  next
    case False
    from list_body_check_raises [OF False that] show ?thesis
      by (simp add: list_vc_body)
  qed
  have f: "fst (list_vc ext w) = []" if "fst (list_body ext w) = Inl e"
    using that by (simp add: list_vc_body)
  from a b c d f abc show ?thesis by simp
qed

theorem list_splits_or_swallows_witness:
  "fst (list_vc example_ext (world_of_lines [''0,1,A,B,C''])) = [''A'', ''B'', ''C'']
   \<and> fst (list_vc example_ext
        ((world_of_lines [''0,1,A,B,C''])\<lparr>send_script := [Some (CollaboratorError 2)]\<rparr>)) = []
   \<and> fst (list_vc example_ext (world_of_lines [])) = []
   \<and> fst (list_vc example_ext (world_of_lines [''7,1,A,B,C''])) = []"
proof -
  let ?w = "world_of_lines [''0,1,A,B,C'']"
  let ?s = "?w\<lparr>send_script := [Some (CollaboratorError 2)]\<rparr>"
  let ?n = "world_of_lines []"
  let ?v = "world_of_lines [''7,1,A,B,C'']"
  let ?r = "\<lparr>cmd_id = 1, message = ''A,B,C''\<rparr>"
  have h1: "\<not> send_raises ?w" by (simp add: send_raises_def world_of_lines_def)
  have h2: "read_script ?w = Inr ''0,1,A,B,C'' # []" by (simp add: world_of_lines_def)
  have h3: "check_resp example_ext ''0,1,A,B,C'' = Inr ?r" by code_simp
  have p: "fst (list_vc example_ext ?w) = [''A'', ''B'', ''C'']"
    using list_splits_or_swallows [of ?w "''0,1,A,B,C''" "[]" example_ext ?r] h1 h2 h3
    by (simp add: split_on_def)
  have "send_raises ?s" by (simp add: send_raises_def)
  then have q: "fst (list_vc example_ext ?s) = []"
    using list_splits_or_swallows [of ?s _ _ example_ext] by blast
  have "read_script ?n = []" by (simp add: world_of_lines_def)
  then have r: "fst (list_vc example_ext ?n) = []"
    using list_splits_or_swallows [of ?n _ _ example_ext] by blast
  have "read_script ?v = Inr ''7,1,A,B,C'' # []" by (simp add: world_of_lines_def)
  moreover have "check_resp example_ext ''7,1,A,B,C'' = Inl (CollaboratorError 1)" by code_simp
  ultimately have s: "fst (list_vc example_ext ?v) = []"
    using list_splits_or_swallows [of ?v "''7,1,A,B,C''" "[]" example_ext _ "CollaboratorError 1"] by blast
  from p q r s show ?thesis by simp
qed

subsection \<open>The call log\<close>

lemma new_calls_append [simp]:
  "calls w' = calls w @ tr \<Longrightarrow> new_calls w w' = tr"
  by (simp add: new_calls_def)

lemmas io_defs = bind_io_def comm_send_def comm_read_line_def prober_wait_complete_def
  lift_io_def return_io_def Let_def

subsection \<open>\<^verbatim>\<open>select\<close>\<close>

lemma select_trace:
  "new_calls w (snd (select ext n w)) =
     (if send_raises w then [Send (''loader:vc:select '' @ n)]
      else [Send (''loader:vc:select '' @ n), ReadLine])"
  by (auto simp: select_def io_defs new_calls_def send_raises_def
      split: list.splits option.splits sum.splits prod.splits)

lemma select_result:
  "\<not> send_raises w \<Longrightarrow> read_script w = Inr line # rest \<Longrightarrow>
   fst (select ext n w) = check_resp ext line"
  by (simp add: select_def comm_send_ok comm_read_line_def bind_io_def lift_io_def Let_def)

text \<open>
  Claim C8. For every carrier name \<open>n\<close>, \<^verbatim>\<open>select\<close> sends one command line, the text
  \<^verbatim>\<open>loader:vc:select\<close>, a space and \<open>n\<close>; when the send returns and a line arrives,
  \<^verbatim>\<open>select\<close> has made one \<^verbatim>\<open>send\<close> and one \<^verbatim>\<open>read_line\<close> and its outcome is the
  outcome of the validation of that line, unchanged.
\<close>

theorem select_sends_name_returns_response:
  "sends_of (new_calls w (snd (select ext n w))) = [''loader:vc:select '' @ n]
   \<and> (\<not> send_raises w \<and> read_script w = Inr line # rest \<longrightarrow>
        fst (select ext n w) = check_resp ext line
        \<and> new_calls w (snd (select ext n w)) = [Send (''loader:vc:select '' @ n), ReadLine])"
  by (simp add: select_trace select_result)

theorem select_sends_name_returns_response_witness:
  "fst (select example_ext ''CarrierX'' (world_of_lines [''0,3,'']))
     = Inr \<lparr>cmd_id = 3, message = ''''\<rparr>
   \<and> calls (snd (select example_ext ''CarrierX'' (world_of_lines [''0,3,''])))
     = [Send ''loader:vc:select CarrierX'', ReadLine]"
proof -
  let ?w = "world_of_lines [''0,3,'']"
  have h1: "\<not> send_raises ?w" by (simp add: send_raises_def world_of_lines_def)
  have h2: "read_script ?w = Inr ''0,3,'' # []" by (simp add: world_of_lines_def)
  have h3: "check_resp example_ext ''0,3,'' = Inr \<lparr>cmd_id = 3, message = ''''\<rparr>" by code_simp
  have h4: "calls ?w = []" by (simp add: world_of_lines_def)
  from select_sends_name_returns_response [of ?w example_ext "''CarrierX''" "''0,3,''" "[]"] h1 h2 h3 h4
  show ?thesis by (simp add: new_calls_def)
qed

subsection \<open>The shape of the call log of each operation\<close>

lemmas split_all = list.splits option.splits sum.splits prod.splits

lemma alternates_no_wait: "alternates tr \<Longrightarrow> \<not> list_ex is_wait_call tr"
  by (induction tr rule: alternates.induct) auto

lemma alternates_filter: "alternates tr \<Longrightarrow> filter is_transport tr = tr"
  by (induction tr rule: alternates.induct) auto

lemma list_vc_log: "alternates (new_calls w (snd (list_vc ext w)))"
  by (auto simp: list_vc_def list_body_def io_defs new_calls_def split: split_all)

lemma select_log: "alternates (new_calls w (snd (select ext n w)))"
  by (simp add: select_trace)

lemma start_load_first_log: "alternates (new_calls w (snd (start_load_first ext b w)))"
  by (auto simp: start_load_first_def io_defs new_calls_def split: split_all)

lemma start_load_next_log: "alternates (new_calls w (snd (start_load_next ext w)))"
  by (auto simp: start_load_next_def io_defs new_calls_def split: split_all)

lemma load_first_log: "alternates (new_calls w (snd (load_first ext b t w)))"
  by (auto simp: load_first_def start_load_first_def io_defs new_calls_def split: split_all)

lemma load_next_log: "alternates (new_calls w (snd (load_next ext t w)))"
  by (auto simp: load_next_def start_load_next_def io_defs new_calls_def split: split_all)

lemma next_step_log: "alternates (new_calls w (snd (next_step ext t w)))"
  by (auto simp: next_step_def io_defs new_calls_def split: split_all)

lemma initialize_log:
  "\<exists>tr. new_calls w (snd (initialize ext n m t w)) =
          Send (''loader:vc:start_initialize '' @ n @ '', '' @ toSentioAbbr ext m) # tr
        \<and> (tr = [] \<or> tr = [ReadLine] \<or> (\<exists>cid. tr = [ReadLine, WaitComplete cid None]))"
  by (auto simp: initialize_def io_defs new_calls_def split: split_all)

text \<open>
  Claim C9. In the calls that an operation of the module makes on the Transport,
  \<^verbatim>\<open>send\<close> and \<^verbatim>\<open>read_line\<close> alternate, beginning with \<^verbatim>\<open>send\<close>: no operation sends
  a second command before it has read the reply to the first. This holds in every
  world, whatever raises. (The log holds the calls of this module; what the Session
  Controller does inside \<^verbatim>\<open>wait_complete\<close> is not part of it.)
\<close>

theorem transport_calls_alternate:
  "alternates (filter is_transport (new_calls w (snd (list_vc ext w))))
   \<and> alternates (filter is_transport (new_calls w (snd (select ext n w))))
   \<and> alternates (filter is_transport (new_calls w (snd (start_load_first ext b w))))
   \<and> alternates (filter is_transport (new_calls w (snd (initialize ext n m t w))))
   \<and> alternates (filter is_transport (new_calls w (snd (next_step ext t w))))
   \<and> alternates (filter is_transport (new_calls w (snd (load_first ext b t w))))
   \<and> alternates (filter is_transport (new_calls w (snd (start_load_next ext w))))
   \<and> alternates (filter is_transport (new_calls w (snd (load_next ext t w))))"
proof -
  have i: "alternates (filter is_transport (new_calls w (snd (initialize ext n m t w))))"
    using initialize_log [of w ext n m t] by auto
  show ?thesis
    by (simp add: i alternates_filter list_vc_log select_log start_load_first_log
        start_load_next_log load_first_log load_next_log next_step_log)
qed

subsection \<open>\<^verbatim>\<open>load_first\<close> and \<^verbatim>\<open>load_next\<close>\<close>

lemma start_load_first_ok:
  assumes "\<not> send_raises w" "read_script w = Inr l1 # rest" "check_resp ext l1 = Inr resp"
  shows "start_load_first ext b w =
     (Inr resp, w\<lparr>calls := calls w @ [Send (''loader:vc:start_load_first '' @ str_bool b), ReadLine],
                  send_script := tl (send_script w), read_script := rest\<rparr>)"
  using assms
  by (simp add: start_load_first_def comm_send_ok comm_read_line_def bind_io_def lift_io_def Let_def)

lemma start_load_next_ok:
  assumes "\<not> send_raises w" "read_script w = Inr l1 # rest" "check_resp ext l1 = Inr resp"
  shows "start_load_next ext w =
     (Inr resp, w\<lparr>calls := calls w @ [Send ''loader:vc:start_load_next'', ReadLine],
                  send_script := tl (send_script w), read_script := rest\<rparr>)"
  using assms
  by (simp add: start_load_next_def comm_send_ok comm_read_line_def bind_io_def lift_io_def Let_def)

lemma str_int_30: "str_int 30 = ''30''"
  by (simp add: str_int_def str_nat.simps)

lemma load_first_started:
  assumes "sends_return w" "read_script w = Inr l1 # r2 # rest" "check_resp ext l1 = Inr resp"
  shows "new_calls w (snd (load_first ext b t w)) =
           [Send (''loader:vc:start_load_first '' @ str_bool b), ReadLine,
            Send (''wait_complete '' @ str_int (cmd_id resp) @ '', '' @ str_int t), ReadLine]"
    and "fst (load_first ext b t w) =
           (case r2 of Inl e \<Rightarrow> Inl e
            | Inr l2 \<Rightarrow> (case check_resp ext l2 of Inl e \<Rightarrow> Inl e | Inr r \<Rightarrow> Inr ()))"
proof -
  have n: "\<not> send_raises w" using assms(1) by (rule sends_return_not_raises)
  have n2: "\<not> send_raises (w\<lparr>send_script := tl (send_script w)\<rparr>)"
    using assms(1) by (intro sends_return_not_raises sends_return_tl)
  note s = start_load_first_ok [OF n, of l1 "r2 # rest" ext resp b, simplified assms, simplified]
  show "new_calls w (snd (load_first ext b t w)) =
           [Send (''loader:vc:start_load_first '' @ str_bool b), ReadLine,
            Send (''wait_complete '' @ str_int (cmd_id resp) @ '', '' @ str_int t), ReadLine]"
    using n2
    by (simp add: load_first_def bind_io_def s comm_send_def comm_read_line_def lift_io_def
        return_io_def Let_def send_raises_def new_calls_def split: split_all)
  show "fst (load_first ext b t w) =
           (case r2 of Inl e \<Rightarrow> Inl e
            | Inr l2 \<Rightarrow> (case check_resp ext l2 of Inl e \<Rightarrow> Inl e | Inr r \<Rightarrow> Inr ()))"
    using n2
    by (simp add: load_first_def bind_io_def s comm_send_def comm_read_line_def lift_io_def
        return_io_def Let_def send_raises_def split: split_all)
qed

text \<open>
  Claim C6. \<^verbatim>\<open>load_first(cleanup=True, timeout=30)\<close>, when no send raises and the start
  command is acknowledged with the reply \<open>resp\<close>, sends the start command with the flag
  \<^verbatim>\<open>True\<close>, reads a line, sends the line \<^verbatim>\<open>wait_complete\<close> with the correlation id of
  \<open>resp\<close> and the timeout 30, and reads a line. When the validation of the reply to
  the wait raises, or the read of it raises, \<^verbatim>\<open>load_first\<close> raises that error and
  returns nothing; when the validation passes it returns \<^verbatim>\<open>None\<close>.
\<close>

theorem load_first_start_then_wait:
  assumes "sends_return w" and "read_script w = Inr l1 # r2 # rest"
    and "check_resp ext l1 = Inr resp"
  shows "new_calls w (snd (load_first ext True 30 w)) =
           [Send ''loader:vc:start_load_first True'', ReadLine,
            Send (''wait_complete '' @ str_int (cmd_id resp) @ '', 30''), ReadLine]
       \<and> (\<forall>l2 e. r2 = Inr l2 \<and> check_resp ext l2 = Inl e \<longrightarrow>
             fst (load_first ext True 30 w) = Inl e)
       \<and> (\<forall>e. r2 = Inl e \<longrightarrow> fst (load_first ext True 30 w) = Inl e)
       \<and> (\<forall>l2 r. r2 = Inr l2 \<and> check_resp ext l2 = Inr r \<longrightarrow>
             fst (load_first ext True 30 w) = Inr ())"
  using load_first_started [OF assms, of True 30]
  by (simp add: str_bool_def str_int_30)

theorem load_first_start_then_wait_witness:
  "calls (snd (load_first example_ext True 30 (world_of_lines [''0,7,'', ''1,7,'']))) =
     [Send ''loader:vc:start_load_first True'', ReadLine, Send ''wait_complete 7, 30'', ReadLine]
   \<and> fst (load_first example_ext True 30 (world_of_lines [''0,7,'', ''1,7,'']))
       = Inl (CollaboratorError 1)"
proof -
  let ?w = "world_of_lines [''0,7,'', ''1,7,'']"
  let ?r = "\<lparr>cmd_id = 7, message = ''''\<rparr>"
  have h1: "sends_return ?w" by (simp add: sends_return_def world_of_lines_def)
  have h2: "read_script ?w = Inr ''0,7,'' # Inr ''1,7,'' # []" by (simp add: world_of_lines_def)
  have h3: "check_resp example_ext ''0,7,'' = Inr ?r" by code_simp
  have h4: "check_resp example_ext ''1,7,'' = Inl (CollaboratorError 1)" by code_simp
  have h5: "calls ?w = []" by (simp add: world_of_lines_def)
  have h6: "str_int 7 = ''7''" by (simp add: str_int_def str_nat.simps)
  from load_first_start_then_wait [OF h1 h2 h3] h4 h5 h6
  show ?thesis by (simp add: new_calls_def)
qed

subsection \<open>The two ways of waiting for completion\<close>

lemma load_next_started:
  assumes "sends_return w" "read_script w = Inr l1 # r2 # rest" "check_resp ext l1 = Inr resp"
  shows "new_calls w (snd (load_next ext t w)) =
           [Send ''loader:vc:start_load_next'', ReadLine,
            Send (''wait_complete '' @ str_int (cmd_id resp) @ '', '' @ str_int t), ReadLine]"
    and "fst (load_next ext t w) =
           (case r2 of Inl e \<Rightarrow> Inl e
            | Inr l2 \<Rightarrow> (case check_resp ext l2 of Inl e \<Rightarrow> Inl e | Inr r \<Rightarrow> Inr ()))"
proof -
  have n: "\<not> send_raises w" using assms(1) by (rule sends_return_not_raises)
  have n2: "\<not> send_raises (w\<lparr>send_script := tl (send_script w)\<rparr>)"
    using assms(1) by (intro sends_return_not_raises sends_return_tl)
  note s = start_load_next_ok [OF n, of l1 "r2 # rest" ext resp, simplified assms, simplified]
  show "new_calls w (snd (load_next ext t w)) =
           [Send ''loader:vc:start_load_next'', ReadLine,
            Send (''wait_complete '' @ str_int (cmd_id resp) @ '', '' @ str_int t), ReadLine]"
    using n2
    by (simp add: load_next_def bind_io_def s comm_send_def comm_read_line_def lift_io_def
        return_io_def Let_def send_raises_def new_calls_def split: split_all)
  show "fst (load_next ext t w) =
           (case r2 of Inl e \<Rightarrow> Inl e
            | Inr l2 \<Rightarrow> (case check_resp ext l2 of Inl e \<Rightarrow> Inl e | Inr r \<Rightarrow> Inr ()))"
    using n2
    by (simp add: load_next_def bind_io_def s comm_send_def comm_read_line_def lift_io_def
        return_io_def Let_def send_raises_def split: split_all)
qed

lemma next_step_started:
  assumes "sends_return w" "read_script w = Inr l1 # r2 # rest" "check_resp ext l1 = Inr resp"
  shows "new_calls w (snd (next_step ext t w)) =
           [Send ''loader:vc:start_next_step'', ReadLine,
            Send (''wait_complete '' @ str_int (cmd_id resp) @ '', '' @ str_int t), ReadLine]"
    and "fst (next_step ext t w) =
           (case r2 of Inl e \<Rightarrow> Inl e
            | Inr l2 \<Rightarrow> (case check_resp ext l2 of Inl e \<Rightarrow> Inl e
                         | Inr r \<Rightarrow> decode_cols ext (split_on CHR '','' (message resp))))"
proof -
  have n: "\<not> send_raises w" using assms(1) by (rule sends_return_not_raises)
  have n2: "\<not> send_raises (w\<lparr>send_script := tl (send_script w)\<rparr>)"
    using assms(1) by (intro sends_return_not_raises sends_return_tl)
  show "new_calls w (snd (next_step ext t w)) =
           [Send ''loader:vc:start_next_step'', ReadLine,
            Send (''wait_complete '' @ str_int (cmd_id resp) @ '', '' @ str_int t), ReadLine]"
    using n n2 assms(2,3)
    by (simp add: next_step_def bind_io_def comm_send_def comm_read_line_def lift_io_def
        Let_def send_raises_def new_calls_def split: split_all)
  show "fst (next_step ext t w) =
           (case r2 of Inl e \<Rightarrow> Inl e
            | Inr l2 \<Rightarrow> (case check_resp ext l2 of Inl e \<Rightarrow> Inl e
                         | Inr r \<Rightarrow> decode_cols ext (split_on CHR '','' (message resp))))"
    using n n2 assms(2,3)
    by (simp add: next_step_def bind_io_def comm_send_def comm_read_line_def lift_io_def
        Let_def send_raises_def split: split_all)
qed

lemma initialize_started:
  assumes "\<not> send_raises w" "read_script w = Inr l1 # rest" "check_resp ext l1 = Inr resp"
  shows "new_calls w (snd (initialize ext n m t w)) =
           [Send (''loader:vc:start_initialize '' @ n @ '', '' @ toSentioAbbr ext m), ReadLine,
            WaitComplete (cmd_id resp) None]"
  using assms
  by (simp add: initialize_def bind_io_def comm_send_ok comm_read_line_def lift_io_def
        prober_wait_complete_def Let_def new_calls_def split: split_all)

lemma initialize_result:
  assumes "\<not> send_raises w" "read_script w = Inr l1 # rest" "check_resp ext l1 = Inr resp"
    "waits_return w"
  shows "fst (initialize ext n m t w) = decode_loop ext [] (split_on CHR '','' (message resp))"
  using assms
  by (auto simp: initialize_def bind_io_def comm_send_ok comm_read_line_def lift_io_def
        prober_wait_complete_def waits_return_def Let_def split: list.splits sum.splits)

lemma initialize_sends:
  "sends_of (new_calls w (snd (initialize ext n m t w))) =
     [''loader:vc:start_initialize '' @ n @ '', '' @ toSentioAbbr ext m]"
  using initialize_log [of w ext n m t] by auto

text \<open>
  Claim C2, as amended. Of the blocking operations only \<^verbatim>\<open>initialize\<close> waits through
  the Session Controller: its one command line is the start command, and once the
  start command is acknowledged it calls \<^verbatim>\<open>wait_complete\<close> with the correlation id of
  the start reply and no timeout. \<^verbatim>\<open>load_first\<close>, \<^verbatim>\<open>load_next\<close> and \<^verbatim>\<open>next_step\<close>
  never call the Session Controller; once their start command is acknowledged, each
  sends its own line \<^verbatim>\<open>wait_complete\<close> with the correlation id and the timeout over
  the Transport.
\<close>

theorem completion_wait_paths:
  "sends_of (new_calls w (snd (initialize ext n m t w))) =
     [''loader:vc:start_initialize '' @ n @ '', '' @ toSentioAbbr ext m]
   \<and> (\<not> send_raises w \<and> read_script w = Inr l1 # rest' \<and> check_resp ext l1 = Inr resp \<longrightarrow>
        new_calls w (snd (initialize ext n m t w)) =
          [Send (''loader:vc:start_initialize '' @ n @ '', '' @ toSentioAbbr ext m), ReadLine,
           WaitComplete (cmd_id resp) None])
   \<and> \<not> list_ex is_wait_call (new_calls w (snd (load_first ext b t w)))
   \<and> \<not> list_ex is_wait_call (new_calls w (snd (load_next ext t w)))
   \<and> \<not> list_ex is_wait_call (new_calls w (snd (next_step ext t w)))
   \<and> (sends_return w \<and> read_script w = Inr l1 # r2 # rest \<and> check_resp ext l1 = Inr resp \<longrightarrow>
        sends_of (new_calls w (snd (load_first ext b t w))) =
          [''loader:vc:start_load_first '' @ str_bool b,
           ''wait_complete '' @ str_int (cmd_id resp) @ '', '' @ str_int t]
        \<and> sends_of (new_calls w (snd (load_next ext t w))) =
          [''loader:vc:start_load_next'',
           ''wait_complete '' @ str_int (cmd_id resp) @ '', '' @ str_int t]
        \<and> sends_of (new_calls w (snd (next_step ext t w))) =
          [''loader:vc:start_next_step'',
           ''wait_complete '' @ str_int (cmd_id resp) @ '', '' @ str_int t])"
  by (simp add: initialize_sends initialize_started alternates_no_wait load_first_log
      load_next_log next_step_log load_first_started load_next_started next_step_started)

theorem completion_wait_paths_witness:
  "calls (snd (initialize example_ext ''CarrierX'' ''start'' 90
        (world_of_lines [''0,7,Done 5 Station3 1 24.0 2''])))
     = [Send ''loader:vc:start_initialize CarrierX, start'', ReadLine, WaitComplete 7 None]
   \<and> sends_of (calls (snd (load_first example_ext True 30 (world_of_lines [''0,7,'', ''0,7,'']))))
     = [''loader:vc:start_load_first True'', ''wait_complete 7, 30'']
   \<and> sends_of (calls (snd (load_next example_ext 30 (world_of_lines [''0,7,'', ''0,7,'']))))
     = [''loader:vc:start_load_next'', ''wait_complete 7, 30'']
   \<and> sends_of (calls (snd (next_step example_ext 30 (world_of_lines [''0,7,'', ''0,7,'']))))
     = [''loader:vc:start_next_step'', ''wait_complete 7, 30'']"
proof -
  let ?v = "world_of_lines [''0,7,Done 5 Station3 1 24.0 2'']"
  let ?w = "world_of_lines [''0,7,'', ''0,7,'']"
  have v1: "\<not> send_raises ?v" by (simp add: send_raises_def world_of_lines_def)
  have v2: "read_script ?v = Inr ''0,7,Done 5 Station3 1 24.0 2'' # []"
    by (simp add: world_of_lines_def)
  have v3: "check_resp example_ext ''0,7,Done 5 Station3 1 24.0 2''
              = Inr \<lparr>cmd_id = 7, message = ''Done 5 Station3 1 24.0 2''\<rparr>" by code_simp
  have v4: "calls ?v = []" "calls ?w = []" by (simp_all add: world_of_lines_def)
  have v5: "toSentioAbbr example_ext ''start'' = ''start''" by (simp add: example_ext_def)
  have w1: "sends_return ?w" by (simp add: sends_return_def world_of_lines_def)
  have w2: "read_script ?w = Inr ''0,7,'' # Inr ''0,7,'' # []" by (simp add: world_of_lines_def)
  have w3: "check_resp example_ext ''0,7,'' = Inr \<lparr>cmd_id = 7, message = ''''\<rparr>" by code_simp
  have s: "str_int 7 = ''7''" by (simp add: str_int_def str_nat.simps)
  from completion_wait_paths [of ?v example_ext "''CarrierX''" "''start''" 90
      "''0,7,Done 5 Station3 1 24.0 2''" "[]" "\<lparr>cmd_id = 7, message = ''Done 5 Station3 1 24.0 2''\<rparr>"]
    v1 v2 v3 v4 v5
  have a: "calls (snd (initialize example_ext ''CarrierX'' ''start'' 90 ?v))
     = [Send ''loader:vc:start_initialize CarrierX, start'', ReadLine, WaitComplete 7 None]"
    by (simp add: new_calls_def)
  from completion_wait_paths [of ?w example_ext _ _ 30 "''0,7,''" _ "\<lparr>cmd_id = 7, message = ''''\<rparr>"
      True "Inr ''0,7,''" "[]"]
    w1 w2 w3 v4 s
  have b: "sends_of (calls (snd (load_first example_ext True 30 ?w)))
     = [''loader:vc:start_load_first True'', ''wait_complete 7, 30'']
   \<and> sends_of (calls (snd (load_next example_ext 30 ?w)))
     = [''loader:vc:start_load_next'', ''wait_complete 7, 30'']
   \<and> sends_of (calls (snd (next_step example_ext 30 ?w)))
     = [''loader:vc:start_next_step'', ''wait_complete 7, 30'']"
    by (simp add: new_calls_def str_bool_def str_int_30)
  from a b show ?thesis by simp
qed

text \<open>
  Claim C2 as stated fails: \<^verbatim>\<open>load_first\<close> sends a \<^verbatim>\<open>wait_complete\<close> line over the
  Transport and calls the Session Controller not once.
\<close>

theorem load_first_raw_wait_counterexample:
  "calls (snd (load_first example_ext False 90 (world_of_lines [''0,7,'', ''0,7,'']))) =
     [Send ''loader:vc:start_load_first False'', ReadLine, Send ''wait_complete 7, 90'', ReadLine]
   \<and> fst (load_first example_ext False 90 (world_of_lines [''0,7,'', ''0,7,''])) = Inr ()
   \<and> \<not> list_ex is_wait_call
        (calls (snd (load_first example_ext False 90 (world_of_lines [''0,7,'', ''0,7,'']))))"
  by code_simp

text \<open>
  Claim C1 at \<^verbatim>\<open>initialize\<close>. The outcome of \<^verbatim>\<open>initialize\<close> and the world it leaves do
  not depend on \<^verbatim>\<open>timeout\<close>: with the timeout 5 the Session Controller is called
  with the correlation id 7 and no timeout.
\<close>

theorem initialize_drops_timeout:
  "initialize ext n m t w = initialize ext n m t' w
   \<and> calls (snd (initialize example_ext ''CarrierX'' ''start'' 5
        (world_of_lines [''0,7,Processing 1 Station1 2 25.5 0''])))
     = [Send ''loader:vc:start_initialize CarrierX, start'', ReadLine, WaitComplete 7 None]"
proof
  show "initialize ext n m t w = initialize ext n m t' w" by (simp add: initialize_def)
  show "calls (snd (initialize example_ext ''CarrierX'' ''start'' 5
        (world_of_lines [''0,7,Processing 1 Station1 2 25.5 0''])))
     = [Send ''loader:vc:start_initialize CarrierX, start'', ReadLine, WaitComplete 7 None]"
    by code_simp
qed

subsection \<open>The decoder of processing steps\<close>

lemmas decode_defs = decode_cols_def bind_err_def item_def state_member_def station_member_def
  py_float_def

lemma decode_cols_Inr_iff:
  "decode_cols ext col = Inr (st, ident, ls, slot, tmp, pc) \<longleftrightarrow>
     6 \<le> length col \<and> state_by_name ext (col ! 0) = Some st \<and> ident = col ! 1
     \<and> station_by_name ext (col ! 2) = Some ls \<and> py_int (col ! 3) = Inr slot
     \<and> float_of ext (col ! 4) = Some tmp \<and> py_int (col ! 5) = Inr pc"
  by (auto simp: decode_defs split: sum.splits option.splits if_splits)

lemma decode_cols_state_unknown:
  "col \<noteq> [] \<Longrightarrow> state_by_name ext (col ! 0) = None \<Longrightarrow>
   decode_cols ext col = Inl (KeyError (col ! 0))"
  by (simp add: decode_defs)


lemma decode_cols_short:
  "length col < 6 \<Longrightarrow> \<exists>e. decode_cols ext col = Inl e"
  by (cases "decode_cols ext col") (auto simp: decode_cols_Inr_iff)



lemma py_int_digit:
  "py_int ''0'' = Inr 0" "py_int ''1'' = Inr 1" "py_int ''2'' = Inr 2" "py_int ''3'' = Inr 3"
  by code_simp+


subsection \<open>\<^verbatim>\<open>initialize\<close>\<close>

text \<open>
  Claim C4 at a payload that arrives after completion. What \<^verbatim>\<open>initialize\<close> returns or
  raises is the same whatever reply \<^verbatim>\<open>wait_complete\<close> returns: the payload delivered on
  completion is not decoded. When the acknowledgement of the start command carries an
  empty message and the completion reply carries the two records of the claim,
  \<^verbatim>\<open>initialize\<close> calls \<^verbatim>\<open>wait_complete\<close> with the correlation id 7 and then raises
  \<^verbatim>\<open>KeyError\<close> of the empty string, the state column of the acknowledgement.
\<close>

theorem initialize_decodes_acknowledgement:
  "fst (initialize ext n m t (w\<lparr>wait_script := Inr r # ws\<rparr>))
     = fst (initialize ext n m t (w\<lparr>wait_script := Inr r' # ws\<rparr>))
   \<and> fst (initialize example_ext ''CarrierX'' ''start'' 90
        (world_of_replies [''0,7,'']
           [\<lparr>cmd_id = 7,
             message = ''Processing 1 Station1 2 25.5 0,Processing 2 Station2 3 26.0 1''\<rparr>]))
     = Inl (KeyError '''')
   \<and> calls (snd (initialize example_ext ''CarrierX'' ''start'' 90
        (world_of_replies [''0,7,'']
           [\<lparr>cmd_id = 7,
             message = ''Processing 1 Station1 2 25.5 0,Processing 2 Station2 3 26.0 1''\<rparr>])))
     = [Send ''loader:vc:start_initialize CarrierX, start'', ReadLine, WaitComplete 7 None]"
proof (intro conjI)
  show "fst (initialize ext n m t (w\<lparr>wait_script := Inr r # ws\<rparr>))
     = fst (initialize ext n m t (w\<lparr>wait_script := Inr r' # ws\<rparr>))"
    by (auto simp: initialize_def io_defs split: split_all)
  show "fst (initialize example_ext ''CarrierX'' ''start'' 90
        (world_of_replies [''0,7,'']
           [\<lparr>cmd_id = 7,
             message = ''Processing 1 Station1 2 25.5 0,Processing 2 Station2 3 26.0 1''\<rparr>]))
     = Inl (KeyError '''')"
    by code_simp
  show "calls (snd (initialize example_ext ''CarrierX'' ''start'' 90
        (world_of_replies [''0,7,'']
           [\<lparr>cmd_id = 7,
             message = ''Processing 1 Station1 2 25.5 0,Processing 2 Station2 3 26.0 1''\<rparr>])))
     = [Send ''loader:vc:start_initialize CarrierX, start'', ReadLine, WaitComplete 7 None]"
    by code_simp
qed

subsection \<open>\<^verbatim>\<open>next_step\<close>\<close>

lemma split_space_record:
  "split_on CHR '','' ''Done 5 Station3 1 24.0 2'' = [''Done 5 Station3 1 24.0 2'']"
  "split_on CHR '' '' ''Done 5 Station3 1 24.0 2''
     = [''Done'', ''5'', ''Station3'', ''1'', ''24.0'', ''2'']"
  by (simp_all add: split_on_def)

text \<open>
  Claim C5 at the payload \<^verbatim>\<open>Done 5 Station3 1 24.0 2\<close>. When no send raises and both
  replies pass validation, \<^verbatim>\<open>next_step\<close> sends the start command, reads a line, sends
  the line \<^verbatim>\<open>wait_complete\<close> with the correlation id of the first reply and the caller's
  timeout, reads a line, and then raises \<^verbatim>\<open>KeyError\<close> of the whole payload, when no
  state has that name: the payload is split on the comma, so the record is its own
  first column. The decoder of \<^verbatim>\<open>initialize\<close> decodes the same record into the tuple
  (Done, "5", Station3, 1, float("24.0"), 2).
\<close>

theorem next_step_space_record_raises:
  assumes "sends_return w" and "read_script w = Inr l1 # Inr l2 # rest"
    and "check_resp ext l1 = Inr resp" and "check_resp ext l2 = Inr resp2"
    and "message resp = ''Done 5 Station3 1 24.0 2''"
    and "state_by_name ext ''Done 5 Station3 1 24.0 2'' = None"
  shows "fst (next_step ext t w) = Inl (KeyError ''Done 5 Station3 1 24.0 2'')
       \<and> new_calls w (snd (next_step ext t w)) =
           [Send ''loader:vc:start_next_step'', ReadLine,
            Send (''wait_complete '' @ str_int (cmd_id resp) @ '', '' @ str_int t), ReadLine]
       \<and> (state_by_name ext ''Done'' = Some st \<and> station_by_name ext ''Station3'' = Some s3
            \<and> float_of ext ''24.0'' = Some tmp
            \<longrightarrow> decode_loop ext [] (split_on CHR '','' (message resp))
                  = Inr [(st, ''5'', s3, 1, tmp, 2)])"
proof -
  note s = next_step_started [OF assms(1-3), of t]
  have k: "decode_cols ext [''Done 5 Station3 1 24.0 2'']
             = Inl (KeyError ''Done 5 Station3 1 24.0 2'')"
    using assms(6) decode_cols_state_unknown [of "[''Done 5 Station3 1 24.0 2'']" ext] by simp
  have d: "decode_cols ext [''Done'', ''5'', ''Station3'', ''1'', ''24.0'', ''2'']
             = Inr (st, ''5'', s3, 1, tmp, 2)"
    if "state_by_name ext ''Done'' = Some st" "station_by_name ext ''Station3'' = Some s3"
       "float_of ext ''24.0'' = Some tmp"
    using that by (simp add: decode_cols_Inr_iff py_int_digit)
  show ?thesis
    using k d assms(4,5) by (simp add: s split_space_record)
qed

theorem next_step_space_record_raises_witness:
  "fst (next_step example_ext 90 (world_of_lines [''0,7,Done 5 Station3 1 24.0 2'', ''0,7,'']))
     = Inl (KeyError ''Done 5 Station3 1 24.0 2'')
   \<and> calls (snd (next_step example_ext 90
        (world_of_lines [''0,7,Done 5 Station3 1 24.0 2'', ''0,7,''])))
     = [Send ''loader:vc:start_next_step'', ReadLine, Send ''wait_complete 7, 90'', ReadLine]
   \<and> decode_loop example_ext [] (split_on CHR '','' ''Done 5 Station3 1 24.0 2'')
     = Inr [(Done, ''5'', Station3, 1, 24, 2)]"
proof -
  let ?l = "''0,7,Done 5 Station3 1 24.0 2''"
  let ?w = "world_of_lines [?l, ''0,7,'']"
  let ?r = "\<lparr>cmd_id = 7, message = ''Done 5 Station3 1 24.0 2''\<rparr>"
  have h1: "sends_return ?w" by (simp add: sends_return_def world_of_lines_def)
  have h2: "read_script ?w = Inr ?l # Inr ''0,7,'' # []" by (simp add: world_of_lines_def)
  have h3: "check_resp example_ext ?l = Inr ?r" by code_simp
  have h4: "check_resp example_ext ''0,7,'' = Inr \<lparr>cmd_id = 7, message = ''''\<rparr>" by code_simp
  have h5: "message ?r = ''Done 5 Station3 1 24.0 2''" by simp
  have h6: "state_by_name example_ext ''Done 5 Station3 1 24.0 2'' = None"
    by (simp add: example_ext_def)
  have h7: "state_by_name example_ext ''Done'' = Some Done"
    "station_by_name example_ext ''Station3'' = Some Station3"
    "float_of example_ext ''24.0'' = Some 24" by (simp_all add: example_ext_def)
  have h8: "calls ?w = []" by (simp add: world_of_lines_def)
  have h9: "str_int 7 = ''7''" "str_int 90 = ''90''" by (simp_all add: str_int_def str_nat.simps)
  from next_step_space_record_raises [OF h1 h2 h3 h4 h5 h6, of 90 Done Station3 24] h7 h8 h9
  show ?thesis by (simp add: new_calls_def)
qed

subsection \<open>The parsing rule\<close>





end
